theory Spec2Isabelle
  imports Main
begin

section \<open>JavaScript values and thrown values\<close>

text \<open>
  Values of TypeScript type \<open>any\<close> (parsed JSON bodies, the \<open>preferences\<close> object, the
  \<open>settings\<close> column) are trees. Numbers are the integral ones; row ids, limits and offsets
  are integers in the database schema.
\<close>

datatype jsval =
    JUndefined
  | JNull
  | JBool bool
  | JNum int
  | JStr string
  | JArr "jsval list"
  | JObj "(string \<times> jsval) list"

text \<open>JavaScript truthiness, as used by \<open>if (v)\<close>, \<open>!v\<close>, \<open>a && b\<close> and \<open>a || b\<close>.\<close>

fun truthy :: "jsval \<Rightarrow> bool" where
  "truthy JUndefined = False"
| "truthy JNull = False"
| "truthy (JBool b) = b"
| "truthy (JNum n) = (n \<noteq> 0)"
| "truthy (JStr s) = (s \<noteq> [])"
| "truthy (JArr vs) = True"
| "truthy (JObj kvs) = True"

text \<open>Truthiness of an optional string (\<open>string | null | undefined\<close>) and of an optional number.\<close>

fun truthy_str :: "string option \<Rightarrow> bool" where
  "truthy_str None = False"
| "truthy_str (Some s) = (s \<noteq> [])"

fun truthy_num :: "int option \<Rightarrow> bool" where
  "truthy_num None = False"
| "truthy_num (Some n) = (n \<noteq> 0)"

text \<open>
  The error object of the remote store (\<open>{code, message}\<close>), and everything the code can
  throw: an \<open>Error\<close> with a message, the store's error object itself (\<open>throw error\<close>), or a
  value that is not an instance of \<open>Error\<close>.
\<close>

record pg_error =
  code :: string
  message :: string

datatype exn =
    Error string
  | StoreFault pg_error
  | NonError jsval

text \<open>Reading a property: \<open>v.k\<close> throws a TypeError on \<open>null\<close> and \<open>undefined\<close>.\<close>

fun get_prop :: "jsval \<Rightarrow> string \<Rightarrow> exn + jsval" where
  "get_prop JUndefined k = Inl (Error (''Cannot read properties of undefined (reading '' @ k @ '')''))"
| "get_prop JNull k = Inl (Error (''Cannot read properties of null (reading '' @ k @ '')''))"
| "get_prop (JObj kvs) k = Inr (case map_of kvs k of None \<Rightarrow> JUndefined | Some v \<Rightarrow> v)"
| "get_prop v k = Inr JUndefined"

section \<open>Process-wide state\<close>

text \<open>
  \<open>createClient(url, key, options)\<close> is called with constant options; a client is determined
  by the address and the public key it was created with.
\<close>

datatype client = Client string string

text \<open>An outgoing \<open>fetch\<close> call.\<close>

record request =
  url :: string
  http_method :: string
  headers :: "(string \<times> string) list"
  body :: "jsval option"

text \<open>
  The state the modules share: the environment, the browser's \<open>localStorage\<close> (present only
  when \<open>typeof window !== 'undefined'\<close>), the console, the two module-level cells of
  \<open>lib/supabase\<close>, the \<open>token\<close> field of the \<open>AuthService\<close> singleton, and the trace of
  network requests issued.
\<close>

datatype log_entry =
    Log string
  | LogStr string string
  | LogNum string nat
  | LogExn string exn

record world =
  process_env :: "string \<rightharpoonup> string"
  localStorage :: "(string \<rightharpoonup> string) option"
  console :: "log_entry list"
  supabaseInstance :: "client option"
  supabaseInitialized :: bool
  token :: "string option"
  network :: "request list"

definition console_log :: "log_entry \<Rightarrow> world \<Rightarrow> world" where
  "console_log entry w = w\<lparr>console := console w @ [entry]\<rparr>"

section \<open>The mode resolver \<open>getSupabase\<close>\<close>

text \<open>
  The repository has two definitions of \<open>getSupabase\<close>. The first keeps a flag
  \<open>supabaseInitialized\<close> beside the instance.
\<close>

definition getSupabase :: "world \<Rightarrow> client option \<times> world" where
  "getSupabase w =
     (if \<not> supabaseInitialized w then
        (let supabaseUrl = process_env w ''NEXT_PUBLIC_SUPABASE_URL'';
             supabaseAnonKey = process_env w ''NEXT_PUBLIC_SUPABASE_ANON_KEY'';
             w1 = (if truthy_str supabaseUrl \<and> truthy_str supabaseAnonKey
                   then console_log (Log ''Supabase client initialized successfully'')
                          (w\<lparr>supabaseInstance := Some (Client (the supabaseUrl) (the supabaseAnonKey))\<rparr>)
                   else (console_log (Log ''Supabase credentials not configured - running without database'') w)
                          \<lparr>supabaseInstance := None\<rparr>);
             w2 = w1\<lparr>supabaseInitialized := True\<rparr>
         in (supabaseInstance w2, w2))
      else (supabaseInstance w, w))"

text \<open>
  The second has the instance only, tests \<open>!supabaseInstance\<close>, and returns \<open>null\<close> early
  when a credential is missing.
\<close>

definition getSupabase_lazy :: "world \<Rightarrow> client option \<times> world" where
  "getSupabase_lazy w =
     (if supabaseInstance w = None then
        (let supabaseUrl = process_env w ''NEXT_PUBLIC_SUPABASE_URL'';
             supabaseAnonKey = process_env w ''NEXT_PUBLIC_SUPABASE_ANON_KEY''
         in if \<not> truthy_str supabaseUrl \<or> \<not> truthy_str supabaseAnonKey
            then (None,
                  console_log (Log ''Supabase credentials not configured. Running without database persistence.'') w)
            else (let w1 = w\<lparr>supabaseInstance := Some (Client (the supabaseUrl) (the supabaseAnonKey))\<rparr>
                  in (supabaseInstance w1, w1)))
      else (supabaseInstance w, w))"

text \<open>Which of the two modules an importer of \<open>./supabase\<close> is linked against.\<close>

datatype resolver = Flagged | Lazy

fun resolve :: "resolver \<Rightarrow> world \<Rightarrow> client option \<times> world" where
  "resolve Flagged w = getSupabase w"
| "resolve Lazy w = getSupabase_lazy w"

text \<open>
  The configuration mode in a state: configured when the resolver, called there, yields a
  client.
\<close>

definition configured :: "resolver \<Rightarrow> world \<Rightarrow> bool" where
  "configured r w = (fst (resolve r w) \<noteq> None)"

text \<open>Reconfiguring the environment between two calls.\<close>

definition set_env :: "string \<Rightarrow> string \<Rightarrow> world \<Rightarrow> world" where
  "set_env k v w = w\<lparr>process_env := (process_env w)(k \<mapsto> v)\<rparr>"

text \<open>A freshly started process: nothing resolved, nothing logged, no token.\<close>

definition fresh :: "(string \<rightharpoonup> string) \<Rightarrow> (string \<rightharpoonup> string) option \<Rightarrow> world" where
  "fresh env ls =
     \<lparr>process_env = env, localStorage = ls, console = [], supabaseInstance = None,
      supabaseInitialized = False, token = None, network = []\<rparr>"

section \<open>The route guard\<close>

datatype rendered = LoadingView | Children | Nothing

text \<open>
  \<open>ProtectedRoute\<close> reads \<open>{user, loading}\<close> from the auth context and calls
  \<open>getSupabase()\<close>. Its result is the element rendered and the navigations pushed by the
  effect that runs after the render.
\<close>

definition ProtectedRoute ::
  "resolver \<Rightarrow> 'u option \<Rightarrow> bool \<Rightarrow> world \<Rightarrow> (rendered \<times> string list) \<times> world" where
  "ProtectedRoute r user loading w =
     (let (supabase, w1) = resolve r w;
          pushed = (if supabase \<noteq> None \<and> \<not> loading \<and> user = None then [''/signin''] else []);
          view = (if loading then LoadingView
                  else if supabase = None then Children
                  else if user = None then Nothing
                  else Children)
      in ((view, pushed), w1))"

section \<open>The remote store, as the data-access layer sees it\<close>

text \<open>
  A query is what the builder chain sends to the remote store: the table, the operation, the
  equality filters, the inclusive row range, the ordering and whether a single row is asked
  for. Each builder call updates it.
\<close>

datatype qval = QNum int | QStr string

datatype 'p operation = NoOp | Select string | Insert 'p | Update 'p

record 'p query =
  q_table :: string
  q_op :: "'p operation"
  q_filters :: "(string \<times> qval) list"
  q_range :: "(int \<times> int) option"
  q_order :: "(string \<times> bool) option"
  q_single :: bool

definition from_table :: "string \<Rightarrow> 'p query" where
  "from_table t =
     \<lparr>q_table = t, q_op = NoOp, q_filters = [], q_range = None, q_order = None, q_single = False\<rparr>"

definition select_cols :: "string \<Rightarrow> 'p query \<Rightarrow> 'p query" where
  "select_cols cols q = q\<lparr>q_op := (case q_op q of NoOp \<Rightarrow> Select cols | op \<Rightarrow> op)\<rparr>"

definition insert_rows :: "'p \<Rightarrow> 'p query \<Rightarrow> 'p query" where
  "insert_rows v q = q\<lparr>q_op := Insert v\<rparr>"

definition update_rows :: "'p \<Rightarrow> 'p query \<Rightarrow> 'p query" where
  "update_rows v q = q\<lparr>q_op := Update v\<rparr>"

definition eq_filter :: "string \<Rightarrow> qval \<Rightarrow> 'p query \<Rightarrow> 'p query" where
  "eq_filter col v q = q\<lparr>q_filters := q_filters q @ [(col, v)]\<rparr>"

definition range_rows :: "int \<Rightarrow> int \<Rightarrow> 'p query \<Rightarrow> 'p query" where
  "range_rows start end q = q\<lparr>q_range := Some (start, end)\<rparr>"

definition order_by :: "string \<Rightarrow> bool \<Rightarrow> 'p query \<Rightarrow> 'p query" where
  "order_by col ascending q = q\<lparr>q_order := Some (col, ascending)\<rparr>"

definition single_row :: "'p query \<Rightarrow> 'p query" where
  "single_row q = q\<lparr>q_single := True\<rparr>"

text \<open>The reply \<open>{data, error}\<close> that every awaited query is destructured into.\<close>

record 'a response =
  data :: "'a option"
  error :: "pg_error option"

text \<open>Rows. The columns are those of the schema; timestamps are points on a line.\<close>

type_synonym timestamp = int

record project =
  p_id :: int
  p_user_id :: string
  p_name :: string
  p_description :: "string option"
  p_repo_url :: string
  p_repo_name :: string
  p_repo_owner :: string
  p_settings :: jsval
  p_created_at :: timestamp
  p_updated_at :: timestamp

record task_ref =
  t_id :: int
  t_status :: string

text \<open>A project row joined with its child tasks, and the same row with the derived counters.\<close>

record project_row = project +
  tasks :: "task_ref list option"

record ProjectWithStats = project_row +
  task_count :: nat
  completed_tasks :: nat
  active_tasks :: nat

record project_ref =
  pr_id :: int
  pr_name :: string
  pr_repo_name :: string
  pr_repo_owner :: string

record task =
  tk_id :: int
  tk_user_id :: string
  tk_project_id :: "int option"
  tk_status :: string
  tk_created_at :: timestamp
  tk_project :: "project_ref option"

record projectData =
  name :: string
  description :: "string option"
  repo_url :: string
  repo_name :: string
  repo_owner :: string
  settings :: "jsval option"

record profile_updates =
  full_name :: "string option"
  github_username :: "string option"
  github_token :: "string option"
  preferences :: jsval

text \<open>What is sent as the payload of an insert or an update.\<close>

datatype payload =
    NewProject projectData string
  | ProfileUpdates profile_updates

text \<open>
  The remote store behind a client: the identity it resolves (\<open>auth.getUser()\<close>) and its
  answers to queries, one answer function for each shape of row the service asks for.
\<close>

record auth_user =
  au_id :: string

record remote =
  auth_getUser :: "auth_user option"
  projects_with_tasks :: "payload query \<Rightarrow> project_row list response"
  one_project :: "payload query \<Rightarrow> project response"
  task_rows :: "payload query \<Rightarrow> task list response"
  one_task :: "payload query \<Rightarrow> task response"
  one_profile :: "payload query \<Rightarrow> jsval response"

section \<open>The data-access layer \<open>SupabaseService\<close>\<close>

text \<open>The private getter \<open>supabase\<close>: every \<open>this.supabase\<close> in a method evaluates it.\<close>

definition supabase_getter :: "resolver \<Rightarrow> world \<Rightarrow> client option \<times> world" where
  "supabase_getter r w =
     (let (client, w1) = resolve r w
      in if client = None
         then (None, console_log (Log ''Supabase not configured - using local development mode'') w1)
         else (client, w1))"

text \<open>Calling a method on the getter's result throws a TypeError when the result is \<open>null\<close>.\<close>

definition deref :: "client option \<Rightarrow> string \<Rightarrow> exn + client" where
  "deref c k =
     (case c of
        None \<Rightarrow> Inl (Error (''Cannot read properties of null (reading '' @ k @ '')''))
      | Some cl \<Rightarrow> Inr cl)"

definition StoreUnavailable :: exn where
  "StoreUnavailable = Error ''Database not available in local development mode''"

definition Unauthenticated :: exn where
  "Unauthenticated = Error ''No authenticated user''"

subsection \<open>Projects\<close>

text \<open>The callback of \<open>data?.map(...)\<close> in \<open>getProjects\<close>.\<close>

definition addStats :: "project_row \<Rightarrow> ProjectWithStats" where
  "addStats project =
     project_row.extend project
       (ProjectWithStats.fields
          (case tasks project of None \<Rightarrow> 0 | Some ts \<Rightarrow> length ts)
          (case tasks project of None \<Rightarrow> 0
           | Some ts \<Rightarrow> length (filter (\<lambda>t. t_status t = ''completed'') ts))
          (case tasks project of None \<Rightarrow> 0
           | Some ts \<Rightarrow> length (filter (\<lambda>t. t_status t = ''running'') ts)))"

definition getProjects_query :: "payload query" where
  "getProjects_query =
     order_by ''created_at'' False (select_cols ''*, tasks (id, status)'' (from_table ''projects''))"

text \<open>The body of the \<open>try\<close> block of \<open>getProjects\<close>.\<close>

definition getProjects_try :: "resolver \<Rightarrow> remote \<Rightarrow> world \<Rightarrow> (exn + ProjectWithStats list) \<times> world" where
  "getProjects_try r db w =
     (let (c, w1) = supabase_getter r w
      in case deref c ''from'' of
           Inl e \<Rightarrow> (Inl e, w1)
         | Inr cl \<Rightarrow>
             (let resp = projects_with_tasks db getProjects_query
              in case error resp of
                   Some e \<Rightarrow> (Inl (StoreFault e), w1)
                 | None \<Rightarrow>
                     (Inr (case data resp of None \<Rightarrow> [] | Some rows \<Rightarrow> map addStats rows), w1)))"

definition getProjects :: "resolver \<Rightarrow> remote \<Rightarrow> world \<Rightarrow> (exn + ProjectWithStats list) \<times> world" where
  "getProjects r db w =
     (let (c, w1) = supabase_getter r w
      in if c = None then (Inr [], w1)
         else (case getProjects_try r db w1 of
                 (Inl e, w2) \<Rightarrow> (Inr [], console_log (LogExn ''Error loading projects:'' e) w2)
               | (Inr v, w2) \<Rightarrow> (Inr v, w2)))"

definition createProject ::
  "resolver \<Rightarrow> remote \<Rightarrow> projectData \<Rightarrow> world \<Rightarrow> (exn + project option) \<times> world" where
  "createProject r db pd w =
     (let (c, w1) = supabase_getter r w
      in if c = None then (Inl StoreUnavailable, w1)
         else
           (let (c2, w2) = supabase_getter r w1
            in case deref c2 ''auth'' of
                 Inl e \<Rightarrow> (Inl e, w2)
               | Inr cl2 \<Rightarrow>
                   (case auth_getUser db of
                      None \<Rightarrow> (Inl Unauthenticated, w2)
                    | Some user \<Rightarrow>
                        (let (c3, w3) = supabase_getter r w2
                         in case deref c3 ''from'' of
                              Inl e \<Rightarrow> (Inl e, w3)
                            | Inr cl3 \<Rightarrow>
                                (let resp = one_project db
                                       (single_row (select_cols ''*''
                                          (insert_rows (NewProject pd (au_id user))
                                             (from_table ''projects''))))
                                 in case error resp of
                                      Some e \<Rightarrow> (Inl (StoreFault e), w3)
                                    | None \<Rightarrow> (Inr (data resp), w3))))))"

definition getProject_query :: "int \<Rightarrow> payload query" where
  "getProject_query i =
     single_row (eq_filter ''id'' (QNum i) (select_cols ''*'' (from_table ''projects'')))"

definition getProject :: "resolver \<Rightarrow> remote \<Rightarrow> int \<Rightarrow> world \<Rightarrow> (exn + project option) \<times> world" where
  "getProject r db i w =
     (let (c, w1) = supabase_getter r w
      in if c = None then (Inr None, w1)
         else
           (let (c2, w2) = supabase_getter r w1
            in case deref c2 ''from'' of
                 Inl e \<Rightarrow> (Inl e, w2)
               | Inr cl \<Rightarrow>
                   (let resp = one_project db (getProject_query i)
                    in case error resp of
                         Some e \<Rightarrow>
                           if code e = ''PGRST116'' then (Inr None, w2) else (Inl (StoreFault e), w2)
                       | None \<Rightarrow> (Inr (data resp), w2))))"

subsection \<open>Tasks\<close>

record options =
  limit :: "int option"
  offset :: "int option"

definition tasks_select :: string where
  "tasks_select = ''*, project:projects (id, name, repo_name, repo_owner)''"

text \<open>The query \<open>getTasks\<close> has built when it awaits it.\<close>

definition getTasks_query :: "int option \<Rightarrow> options option \<Rightarrow> payload query" where
  "getTasks_query projectId opts =
     (let query = select_cols tasks_select (from_table ''tasks'');
          query = (if truthy_num projectId then eq_filter ''project_id'' (QNum (the projectId)) query
                   else query);
          query = (if truthy_num (case opts of None \<Rightarrow> None | Some os \<Rightarrow> limit os)
                   then (let start = (if truthy_num (offset (the opts)) then the (offset (the opts)) else 0);
                             end = start + the (limit (the opts)) - 1
                         in range_rows start end query)
                   else query)
      in order_by ''created_at'' False query)"

definition getTasks_try ::
  "resolver \<Rightarrow> remote \<Rightarrow> int option \<Rightarrow> options option \<Rightarrow> world \<Rightarrow> (exn + task list) \<times> world" where
  "getTasks_try r db projectId opts w =
     (let (c, w1) = supabase_getter r w
      in case deref c ''from'' of
           Inl e \<Rightarrow> (Inl e, w1)
         | Inr cl \<Rightarrow>
             (let resp = task_rows db (getTasks_query projectId opts)
              in case error resp of
                   Some e \<Rightarrow> (Inl (StoreFault e), w1)
                 | None \<Rightarrow> (Inr (case data resp of None \<Rightarrow> [] | Some rows \<Rightarrow> rows), w1)))"

definition getTasks ::
  "resolver \<Rightarrow> remote \<Rightarrow> int option \<Rightarrow> options option \<Rightarrow> world \<Rightarrow> (exn + task list) \<times> world" where
  "getTasks r db projectId opts w =
     (let (c, w1) = supabase_getter r w
      in if c = None then (Inr [], w1)
         else (case getTasks_try r db projectId opts w1 of
                 (Inl e, w2) \<Rightarrow> (Inr [], console_log (LogExn ''Error loading tasks:'' e) w2)
               | (Inr v, w2) \<Rightarrow> (Inr v, w2)))"

definition getTask_query :: "int \<Rightarrow> payload query" where
  "getTask_query i =
     single_row (eq_filter ''id'' (QNum i) (select_cols tasks_select (from_table ''tasks'')))"

definition getTask_try :: "resolver \<Rightarrow> remote \<Rightarrow> int \<Rightarrow> world \<Rightarrow> (exn + task option) \<times> world" where
  "getTask_try r db i w =
     (let (c, w1) = supabase_getter r w
      in case deref c ''from'' of
           Inl e \<Rightarrow> (Inl e, w1)
         | Inr cl \<Rightarrow>
             (let resp = one_task db (getTask_query i)
              in case error resp of
                   Some e \<Rightarrow>
                     if code e = ''PGRST116'' then (Inr None, w1) else (Inl (StoreFault e), w1)
                 | None \<Rightarrow> (Inr (data resp), w1)))"

definition getTask :: "resolver \<Rightarrow> remote \<Rightarrow> int \<Rightarrow> world \<Rightarrow> (exn + task option) \<times> world" where
  "getTask r db i w =
     (let (c, w1) = supabase_getter r w
      in if c = None then (Inr None, w1)
         else (case getTask_try r db i w1 of
                 (Inl e, w2) \<Rightarrow> (Inr None, console_log (LogExn ''Error loading task:'' e) w2)
               | (Inr v, w2) \<Rightarrow> (Inr v, w2)))"

subsection \<open>The user profile\<close>

text \<open>
  \<open>JSON.stringify\<close> is the runtime's; the service is given it as \<open>stringify\<close>. An absent
  row (\<open>data\<close> is \<open>null\<close>) is returned as \<open>null\<close>.
\<close>

definition setItem :: "string \<Rightarrow> string \<Rightarrow> world \<Rightarrow> world" where
  "setItem k v w =
     (case localStorage w of
        None \<Rightarrow> w
      | Some ls \<Rightarrow> w\<lparr>localStorage := Some (ls(k \<mapsto> v))\<rparr>)"

definition removeItem :: "string \<Rightarrow> world \<Rightarrow> world" where
  "removeItem k w =
     (case localStorage w of
        None \<Rightarrow> w
      | Some ls \<Rightarrow> w\<lparr>localStorage := Some (ls(k := None))\<rparr>)"

definition updateUserProfile ::
  "(jsval \<Rightarrow> string) \<Rightarrow> resolver \<Rightarrow> remote \<Rightarrow> profile_updates \<Rightarrow> world \<Rightarrow> (exn + jsval) \<times> world" where
  "updateUserProfile stringify r db updates w =
     (let (c, w1) = supabase_getter r w
      in if c = None then
           (let w2 = (if localStorage w1 \<noteq> None \<and> truthy (preferences updates)
                      then setItem ''user_preferences'' (stringify (preferences updates)) w1
                      else w1)
            in (Inr (JObj [(''preferences'', preferences updates)]), w2))
         else
           (let (c2, w2) = supabase_getter r w1
            in case deref c2 ''auth'' of
                 Inl e \<Rightarrow> (Inl e, w2)
               | Inr cl2 \<Rightarrow>
                   (case auth_getUser db of
                      None \<Rightarrow> (Inl Unauthenticated, w2)
                    | Some user \<Rightarrow>
                        (let (c3, w3) = supabase_getter r w2
                         in case deref c3 ''from'' of
                              Inl e \<Rightarrow> (Inl e, w3)
                            | Inr cl3 \<Rightarrow>
                                (let resp = one_profile db
                                       (single_row (select_cols ''*''
                                          (eq_filter ''id'' (QStr (au_id user))
                                             (update_rows (ProfileUpdates updates)
                                                (from_table ''users'')))))
                                 in case error resp of
                                      Some e \<Rightarrow> (Inl (StoreFault e), w3)
                                    | None \<Rightarrow>
                                        (Inr (case data resp of None \<Rightarrow> JNull | Some v \<Rightarrow> v), w3))))))"

section \<open>The network\<close>

text \<open>
  A \<open>fetch\<close> either rejects (a transport-level fault) or resolves to a response, whose
  \<open>json()\<close> in turn rejects when the body is not JSON. \<open>response.ok\<close> is true for the
  statuses 200 to 299.
\<close>

record http_response =
  status :: nat
  json :: "exn + jsval"

definition ok :: "http_response \<Rightarrow> bool" where
  "ok response = (200 \<le> status response \<and> status response \<le> 299)"

type_synonym fetch = "request \<Rightarrow> exn + http_response"

definition do_fetch :: "fetch \<Rightarrow> request \<Rightarrow> world \<Rightarrow> (exn + http_response) \<times> world" where
  "do_fetch net req w = (net req, w\<lparr>network := network w @ [req]\<rparr>)"

section \<open>The session manager \<open>AuthService\<close>\<close>

definition or_default :: "string option \<Rightarrow> string \<Rightarrow> string" where
  "or_default v d = (if truthy_str v then the v else d)"

definition API_URL :: "world \<Rightarrow> string" where
  "API_URL w = or_default (process_env w ''NEXT_PUBLIC_API_URL'') ''http://localhost:5000''"

text \<open>The constructor loads the token from \<open>localStorage\<close> when there is a window.\<close>

definition AuthService_constructor :: "world \<Rightarrow> world" where
  "AuthService_constructor w =
     (let w0 = w\<lparr>token := None\<rparr>
      in case localStorage w0 of
           None \<Rightarrow> w0
         | Some ls \<Rightarrow> w0\<lparr>token := ls ''auth_token''\<rparr>)"

definition setToken :: "string \<Rightarrow> world \<Rightarrow> world" where
  "setToken t w =
     (let w1 = w\<lparr>token := Some t\<rparr>
      in if localStorage w1 \<noteq> None then setItem ''auth_token'' t w1 else w1)"

definition clearToken :: "world \<Rightarrow> world" where
  "clearToken w =
     (let w1 = w\<lparr>token := None\<rparr>
      in if localStorage w1 \<noteq> None then removeItem ''auth_token'' w1 else w1)"

definition logout :: "world \<Rightarrow> world" where
  "logout w = clearToken w"

definition getToken :: "world \<Rightarrow> string option" where
  "getToken w = token w"

text \<open>The body of the \<open>try\<close> block of \<open>getCurrentUser\<close>.\<close>

definition me_request :: "world \<Rightarrow> request" where
  "me_request w =
     \<lparr>url = API_URL w @ ''/api/auth/me'', http_method = ''GET'',
      headers = [(''Authorization'', ''Bearer '' @ the (token w))], body = None\<rparr>"

definition getCurrentUser_try :: "fetch \<Rightarrow> world \<Rightarrow> (exn + jsval) \<times> world" where
  "getCurrentUser_try net w =
     (let (res, w1) = do_fetch net (me_request w) w
      in case res of
           Inl e \<Rightarrow> (Inl e, w1)
         | Inr response \<Rightarrow>
             if \<not> ok response then (Inr JNull, clearToken w1)
             else (case json response of
                     Inl e \<Rightarrow> (Inl e, w1)
                   | Inr d \<Rightarrow>
                       (case get_prop d ''user'' of
                          Inl e \<Rightarrow> (Inl e, w1)
                        | Inr user \<Rightarrow> (Inr user, w1))))"

definition getCurrentUser :: "fetch \<Rightarrow> world \<Rightarrow> (exn + jsval) \<times> world" where
  "getCurrentUser net w =
     (if \<not> truthy_str (token w) then (Inr JNull, w)
      else (case getCurrentUser_try net w of
              (Inl e, w1) \<Rightarrow>
                (Inr JNull, clearToken (console_log (LogExn ''Error getting current user:'' e) w1))
            | (Inr v, w1) \<Rightarrow> (Inr v, w1)))"

section \<open>The forwarding endpoint \<open>POST /api/validate-token\<close>\<close>

definition BACKEND_URL :: "world \<Rightarrow> string" where
  "BACKEND_URL w = or_default (process_env w ''BACKEND_URL'') ''http://backend:5000''"

text \<open>
  What \<open>NextResponse.json(payload, {status})\<close> builds. The incoming request is given by
  what its \<open>json()\<close> yields.
\<close>

record next_response =
  resp_status :: nat
  resp_body :: jsval

definition NextResponse_json :: "jsval \<Rightarrow> nat \<Rightarrow> next_response" where
  "NextResponse_json payload st = \<lparr>resp_status = st, resp_body = payload\<rparr>"

text \<open>The request sent on to the backend, and the body of the \<open>try\<close> block of \<open>POST\<close>.\<close>

definition forward_request :: "jsval \<Rightarrow> world \<Rightarrow> request" where
  "forward_request b w =
     \<lparr>url = BACKEND_URL w @ ''/validate-token'', http_method = ''POST'',
      headers = [(''Content-Type'', ''application/json'')], body = Some b\<rparr>"

definition POST_try :: "fetch \<Rightarrow> (exn + jsval) \<Rightarrow> world \<Rightarrow> (exn + next_response) \<times> world" where
  "POST_try net request_json w =
     (case request_json of
        Inl e \<Rightarrow> (Inl e, w)
      | Inr b \<Rightarrow>
          (let w1 = console_log (LogStr ''[validate-token] Forwarding request to backend:'' (BACKEND_URL w)) w;
               (res, w2) = do_fetch net (forward_request b w1) w1
           in case res of
                Inl e \<Rightarrow> (Inl e, w2)
              | Inr response \<Rightarrow>
                  (let w3 = console_log
                              (LogNum ''[validate-token] Backend response status:'' (status response)) w2
                   in case json response of
                        Inl e \<Rightarrow> (Inl e, w3)
                      | Inr d \<Rightarrow> (Inr (NextResponse_json d (status response)), w3))))"

definition POST :: "fetch \<Rightarrow> (exn + jsval) \<Rightarrow> world \<Rightarrow> next_response \<times> world" where
  "POST net request_json w =
     (case POST_try net request_json w of
        (Inr resp, w1) \<Rightarrow> (resp, w1)
      | (Inl e, w1) \<Rightarrow>
          (let w2 = console_log (LogExn ''[validate-token] Error details:'' e) w1;
               errorMessage = (case e of Error m \<Rightarrow> m | _ \<Rightarrow> ''Unknown error'');
               detailedError = ''Failed to connect to backend service at '' @ BACKEND_URL w2 @ '': '' @ errorMessage
           in (NextResponse_json (JObj [(''error'', JStr detailedError), (''status'', JStr ''error'')]) 500,
               w2)))"

section \<open>Concrete inputs\<close>

text \<open>Environments with and without the store's credentials, and processes started in them.\<close>

definition env_configured :: "string \<rightharpoonup> string" where
  "env_configured =
     [''NEXT_PUBLIC_SUPABASE_URL'' \<mapsto> ''https://db.example'',
      ''NEXT_PUBLIC_SUPABASE_ANON_KEY'' \<mapsto> ''anon-key'']"

definition w_local :: world where
  "w_local = fresh Map.empty (Some Map.empty)"

definition w_remote :: world where
  "w_remote = fresh env_configured (Some Map.empty)"

text \<open>A process with a window whose token store holds a token.\<close>

definition w_session :: world where
  "w_session = AuthService_constructor (fresh Map.empty (Some [''auth_token'' \<mapsto> ''tok-1'']))"

text \<open>A backend that is unreachable, and one that rejects with status 401.\<close>

definition net_down :: fetch where
  "net_down req = Inl (Error ''fetch failed'')"

definition net_401 :: fetch where
  "net_401 req = Inr \<lparr>status = 401, json = Inr (JObj [(''error'', JStr ''Invalid token'')])\<rparr>"

text \<open>
  A remote store with one project that has three child tasks, two completed and one
  running; it reports an internal fault for every single-row read of a task.
\<close>

definition project1 :: project_row where
  "project1 =
     \<lparr>p_id = 1, p_user_id = ''u1'', p_name = ''demo'', p_description = None,
      p_repo_url = ''https://github.com/o/demo'', p_repo_name = ''demo'', p_repo_owner = ''o'',
      p_settings = JObj [], p_created_at = 100, p_updated_at = 100,
      tasks = Some [\<lparr>t_id = 1, t_status = ''completed''\<rparr>,
                    \<lparr>t_id = 2, t_status = ''running''\<rparr>,
                    \<lparr>t_id = 3, t_status = ''completed''\<rparr>]\<rparr>"

definition task1 :: task where
  "task1 =
     \<lparr>tk_id = 1, tk_user_id = ''u1'', tk_project_id = Some 1, tk_status = ''completed'',
      tk_created_at = 101, tk_project = None\<rparr>"

definition fault_500 :: pg_error where
  "fault_500 = \<lparr>code = ''500'', message = ''internal error''\<rparr>"

definition fault_not_found :: pg_error where
  "fault_not_found = \<lparr>code = ''PGRST116'', message = ''no rows''\<rparr>"

definition db1 :: remote where
  "db1 =
     \<lparr>auth_getUser = Some \<lparr>au_id = ''u1''\<rparr>,
      projects_with_tasks = (\<lambda>q. \<lparr>data = Some [project1], error = None\<rparr>),
      one_project = (\<lambda>q. \<lparr>data = None, error = Some fault_not_found\<rparr>),
      task_rows = (\<lambda>q. \<lparr>data = Some [task1], error = None\<rparr>),
      one_task = (\<lambda>q. \<lparr>data = None, error = Some fault_500\<rparr>),
      one_profile = (\<lambda>q. \<lparr>data = None, error = Some fault_500\<rparr>)\<rparr>"

definition projectData1 :: projectData where
  "projectData1 =
     \<lparr>name = ''demo'', description = None, repo_url = ''https://github.com/o/demo'',
      repo_name = ''demo'', repo_owner = ''o'', settings = None\<rparr>"

text \<open>
  A serializer to run the examples with: it is \<open>JSON.stringify\<close> on \<open>null\<close>, the
  booleans and the empty object, the values the examples below serialize.
\<close>

fun render :: "jsval \<Rightarrow> string" where
  "render JNull = ''null''"
| "render (JBool True) = ''true''"
| "render (JBool False) = ''false''"
| "render (JObj []) = ''{}''"
| "render v = ''[json]''"

section \<open>Facts about the resolver and the getter\<close>

text \<open>Once a resolver has yielded a client, calling it again yields the same client and changes nothing.\<close>

lemma resolve_stable:
  "resolve r w = (Some c, w1) \<Longrightarrow> resolve r w1 = (Some c, w1)"
  by (cases r)
     (auto simp: getSupabase_def getSupabase_lazy_def console_log_def Let_def split: if_splits)

lemma resolve_localStorage: "localStorage (snd (resolve r w)) = localStorage w"
  by (cases r)
     (auto simp: getSupabase_def getSupabase_lazy_def console_log_def Let_def split: if_splits)

lemma getter_unconfigured:
  "\<not> configured r w \<Longrightarrow> fst (supabase_getter r w) = None"
  by (auto simp: configured_def supabase_getter_def split: prod.splits)

lemma getter_localStorage: "localStorage (snd (supabase_getter r w)) = localStorage w"
  using resolve_localStorage [of r w]
  by (auto simp: supabase_getter_def console_log_def split: prod.splits)

lemma getter_configured:
  "configured r w \<Longrightarrow>
     \<exists>c w1. supabase_getter r w = (Some c, w1) \<and> supabase_getter r w1 = (Some c, w1)"
  by (cases "resolve r w")
     (auto simp: configured_def supabase_getter_def resolve_stable split: prod.splits)

text \<open>The two concrete processes are in the modes their names say, under either resolver.\<close>

lemma w_local_unconfigured: "\<not> configured r w_local"
  by (cases r)
     (simp_all add: configured_def getSupabase_def getSupabase_lazy_def w_local_def fresh_def
        console_log_def Let_def)

lemma w_remote_configured: "configured r w_remote"
  by (cases r)
     (simp_all add: configured_def getSupabase_def getSupabase_lazy_def w_remote_def fresh_def
        env_configured_def console_log_def Let_def)

text \<open>
  The resolver with the flag is memoized: whatever its first call returned, every later
  call returns the same, whatever the environment has become, and leaves the state alone.
\<close>

lemma getSupabase_memoized:
  "getSupabase w = (m, w1) \<Longrightarrow>
     getSupabase (w1\<lparr>process_env := env'\<rparr>) = (m, w1\<lparr>process_env := env'\<rparr>)"
  by (auto simp: getSupabase_def console_log_def Let_def split: if_splits)

section \<open>The session manager\<close>

text \<open>
  C1. \<open>getCurrentUser\<close> never throws. With no token held (the field is \<open>null\<close>, or the
  empty string, which \<open>!this.token\<close> treats alike) it returns \<open>null\<close> and leaves the whole
  state, the trace of network requests included, as it was. With a token held, when the probe
  rejects (a network failure) or answers with a status outside 200 to 299, it returns
  \<open>null\<close>, the in-memory token is cleared, and the token store, when there is one, has
  lost its \<open>auth_token\<close> entry and is otherwise unchanged.
\<close>

theorem getCurrentUser_never_fails:
  "(\<exists>v. fst (getCurrentUser net w) = Inr v) \<and>
   (\<not> truthy_str (token w) \<longrightarrow> getCurrentUser net w = (Inr JNull, w)) \<and>
   (truthy_str (token w) \<and>
    (case net (me_request w) of Inl e \<Rightarrow> True | Inr response \<Rightarrow> \<not> ok response) \<longrightarrow>
      fst (getCurrentUser net w) = Inr JNull \<and>
      token (snd (getCurrentUser net w)) = None \<and>
      localStorage (snd (getCurrentUser net w)) =
        map_option (\<lambda>ls. ls(''auth_token'' := None)) (localStorage w))"
proof (intro conjI impI)
  show "\<exists>v. fst (getCurrentUser net w) = Inr v"
    by (simp add: getCurrentUser_def getCurrentUser_try_def do_fetch_def
          split: sum.splits prod.splits)
next
  assume "\<not> truthy_str (token w)"
  then show "getCurrentUser net w = (Inr JNull, w)"
    by (simp add: getCurrentUser_def)
next
  assume h: "truthy_str (token w) \<and>
    (case net (me_request w) of Inl e \<Rightarrow> True | Inr response \<Rightarrow> \<not> ok response)"
  show "fst (getCurrentUser net w) = Inr JNull"
    using h
    by (simp add: getCurrentUser_def getCurrentUser_try_def do_fetch_def split: sum.splits)
  show "token (snd (getCurrentUser net w)) = None"
    using h
    by (cases "localStorage w")
       (simp_all add: getCurrentUser_def getCurrentUser_try_def do_fetch_def clearToken_def
          removeItem_def console_log_def split: sum.splits)
  show "localStorage (snd (getCurrentUser net w)) =
          map_option (\<lambda>ls. ls(''auth_token'' := None)) (localStorage w)"
    using h
    by (cases "localStorage w")
       (simp_all add: getCurrentUser_def getCurrentUser_try_def do_fetch_def clearToken_def
          removeItem_def console_log_def split: sum.splits)
qed

theorem getCurrentUser_never_fails_witness:
  "token w_local = None \<and>
   getCurrentUser net_down w_local = (Inr JNull, w_local) \<and>
   token w_session = Some ''tok-1'' \<and>
   fst (getCurrentUser net_401 w_session) = Inr JNull \<and>
   token (snd (getCurrentUser net_401 w_session)) = None \<and>
   localStorage (snd (getCurrentUser net_401 w_session)) = Some Map.empty \<and>
   fst (getCurrentUser net_down w_session) = Inr JNull \<and>
   localStorage (snd (getCurrentUser net_down w_session)) = Some Map.empty"
  using getCurrentUser_never_fails [of net_down w_local]
        getCurrentUser_never_fails [of net_401 w_session]
        getCurrentUser_never_fails [of net_down w_session]
  by (simp add: w_local_def w_session_def fresh_def AuthService_constructor_def
        net_down_def net_401_def ok_def)

section \<open>The route guard\<close>

text \<open>
  C2. The decision table of \<open>ProtectedRoute\<close> over (loading, configured, user): while
  loading, the loading view and no redirect; after loading, when the store is not configured,
  the protected content and no redirect, whatever the user; when it is configured and there
  is no user, nothing is rendered and a redirect to the sign-in page is pushed; when it is
  configured and there is a user, the protected content and no redirect.
\<close>

theorem ProtectedRoute_decision_table:
  "fst (ProtectedRoute r (user :: 'u option) True w) = (LoadingView, []) \<and>
   (\<not> configured r w \<longrightarrow> fst (ProtectedRoute r user False w) = (Children, [])) \<and>
   (configured r w \<longrightarrow>
      fst (ProtectedRoute r (None :: 'u option) False w) = (Nothing, [''/signin''])) \<and>
   (configured r w \<longrightarrow> fst (ProtectedRoute r (Some u) False w) = (Children, []))"
  by (auto simp: ProtectedRoute_def configured_def split: prod.splits)

theorem ProtectedRoute_decision_table_witness:
  "\<not> configured Flagged w_local \<and>
   fst (ProtectedRoute Flagged (None :: jsval option) True w_local) = (LoadingView, []) \<and>
   fst (ProtectedRoute Flagged (None :: jsval option) False w_local) = (Children, []) \<and>
   configured Lazy w_remote \<and>
   fst (ProtectedRoute Lazy (None :: jsval option) False w_remote) = (Nothing, [''/signin'']) \<and>
   fst (ProtectedRoute Lazy (Some (JStr ''a@x.com'')) False w_remote) = (Children, [])"
  using ProtectedRoute_decision_table [of Flagged "None :: jsval option" w_local JNull]
        ProtectedRoute_decision_table [of Lazy "None :: jsval option" w_remote "JStr ''a@x.com''"]
        w_local_unconfigured [of Flagged] w_remote_configured [of Lazy]
  by simp

section \<open>The mode resolver\<close>

text \<open>
  C6. The second definition of \<open>getSupabase\<close> does not memoize the unconfigured outcome.
  Started without credentials, its first call returns \<open>null\<close>; after the two credentials are
  put into the environment, its next call returns a client, so the mode has changed within
  one process. Left alone, two calls in a row read the environment twice, each logging the
  warning. (\<open>getSupabase_memoized\<close> above is the memoization, for the definition with the
  flag.)
\<close>

theorem getSupabase_lazy_rereads:
  "fst (getSupabase_lazy w_local) = None \<and>
   fst (getSupabase_lazy
          (set_env ''NEXT_PUBLIC_SUPABASE_ANON_KEY'' ''anon-key''
             (set_env ''NEXT_PUBLIC_SUPABASE_URL'' ''https://db.example''
                (snd (getSupabase_lazy w_local)))))
     = Some (Client ''https://db.example'' ''anon-key'') \<and>
   console (snd (getSupabase_lazy (snd (getSupabase_lazy w_local)))) =
     [Log ''Supabase credentials not configured. Running without database persistence.'',
      Log ''Supabase credentials not configured. Running without database persistence.'']"
  by (simp add: getSupabase_lazy_def w_local_def fresh_def set_env_def console_log_def Let_def)

theorem getSupabase_lazy_rereads_witness:
  "fst (getSupabase_lazy w_local) \<noteq>
   fst (getSupabase_lazy
          (set_env ''NEXT_PUBLIC_SUPABASE_ANON_KEY'' ''anon-key''
             (set_env ''NEXT_PUBLIC_SUPABASE_URL'' ''https://db.example''
                (snd (getSupabase_lazy w_local)))))"
  using getSupabase_lazy_rereads by simp

section \<open>The data-access layer without a store\<close>

text \<open>
  C3. When the store is not configured, \<open>getProjects\<close> and \<open>getTasks\<close> return the empty
  list, whatever their arguments and whatever the remote store would have answered, and do
  not throw.
\<close>

theorem unconfigured_lists_are_empty:
  "\<not> configured r w \<Longrightarrow>
     fst (getProjects r db w) = Inr [] \<and> fst (getTasks r db projectId opts w) = Inr []"
  using getter_unconfigured [of r w]
  by (auto simp: getProjects_def getTasks_def split: prod.splits)

theorem unconfigured_lists_are_empty_witness:
  "fst (getProjects Lazy db1 w_local) = Inr [] \<and>
   fst (getTasks Lazy db1 (Some 7) (Some \<lparr>limit = Some 10, offset = Some 20\<rparr>) w_local) = Inr []"
  using unconfigured_lists_are_empty [OF w_local_unconfigured, of Lazy db1 "Some 7"
          "Some \<lparr>limit = Some 10, offset = Some 20\<rparr>"]
  by simp

text \<open>
  C4, as the code has it. When the store is not configured, \<open>createProject\<close> throws the
  error "Database not available in local development mode", and \<open>updateUserProfile\<close>
  returns \<open>{preferences: P}\<close> for the preferences \<open>P\<close> it was given. \<open>P\<close> is written to
  the local cache, serialized under the key \<open>user_preferences\<close>, when there is a browser
  window and \<open>P\<close> is truthy; otherwise the cache is left as it was.
\<close>

theorem unconfigured_writes:
  assumes "\<not> configured r w"
  shows "fst (createProject r db pd w) =
           Inl (Error ''Database not available in local development mode'') \<and>
         fst (updateUserProfile stringify r db updates w) =
           Inr (JObj [(''preferences'', preferences updates)]) \<and>
         localStorage (snd (updateUserProfile stringify r db updates w)) =
           (if truthy (preferences updates)
            then map_option
                   (\<lambda>ls. ls(''user_preferences'' \<mapsto> stringify (preferences updates)))
                   (localStorage w)
            else localStorage w)"
proof -
  obtain w1 where g: "supabase_getter r w = (None, w1)"
    using getter_unconfigured [OF assms] by (cases "supabase_getter r w") auto
  have ls: "localStorage w1 = localStorage w"
    using getter_localStorage [of r w] g by simp
  show ?thesis
    by (cases "localStorage w")
       (simp_all add: createProject_def updateUserProfile_def setItem_def StoreUnavailable_def g ls)
qed

theorem unconfigured_writes_witness:
  "fst (createProject Flagged db1 projectData1 w_local) =
     Inl (Error ''Database not available in local development mode'') \<and>
   fst (updateUserProfile render Flagged db1
          \<lparr>full_name = None, github_username = None, github_token = None,
           preferences = JObj []\<rparr> w_local) = Inr (JObj [(''preferences'', JObj [])]) \<and>
   localStorage (snd (updateUserProfile render Flagged db1
          \<lparr>full_name = None, github_username = None, github_token = None,
           preferences = JObj []\<rparr> w_local)) = Some [''user_preferences'' \<mapsto> ''{}'']"
  using unconfigured_writes [OF w_local_unconfigured, of Flagged db1 projectData1 render
          "\<lparr>full_name = None, github_username = None, github_token = None,
            preferences = JObj []\<rparr>"]
  by (simp add: w_local_def fresh_def)

text \<open>
  Against C4 as stated: in a browser, without a store, \<open>updateUserProfile({preferences:
  false})\<close> returns \<open>{preferences: false}\<close> and the local cache stays empty; and where there
  is no window, a preferences object is returned and there is no cache that could hold it.
\<close>

theorem unconfigured_preferences_not_written:
  "\<not> configured Flagged w_local \<and>
   fst (updateUserProfile render Flagged db1
          \<lparr>full_name = None, github_username = None, github_token = None,
           preferences = JBool False\<rparr> w_local) = Inr (JObj [(''preferences'', JBool False)]) \<and>
   localStorage (snd (updateUserProfile render Flagged db1
          \<lparr>full_name = None, github_username = None, github_token = None,
           preferences = JBool False\<rparr> w_local)) = Some Map.empty \<and>
   \<not> configured Flagged (fresh Map.empty None) \<and>
   localStorage (snd (updateUserProfile render Flagged db1
          \<lparr>full_name = None, github_username = None, github_token = None,
           preferences = JObj [(''theme'', JStr ''dark'')]\<rparr> (fresh Map.empty None))) = None"
  by (simp add: configured_def updateUserProfile_def supabase_getter_def getSupabase_def
        w_local_def fresh_def console_log_def Let_def)

section \<open>Single-row reads with a store\<close>

text \<open>
  C5, as the code has it. With the store configured, \<open>getProject\<close> returns \<open>null\<close> when
  the store reports the fault with code \<open>PGRST116\<close> (row not found), throws the store's
  error object for every other fault, and returns the row when there is no fault.
  \<open>getTask\<close> never throws: it returns \<open>null\<close> for every fault, row not found or not,
  and the row when there is no fault.
\<close>

theorem single_row_reads:
  assumes "configured r w"
  shows "fst (getProject r db i w) =
           (case error (one_project db (getProject_query i)) of
              Some e \<Rightarrow> if code e = ''PGRST116'' then Inr None else Inl (StoreFault e)
            | None \<Rightarrow> Inr (data (one_project db (getProject_query i)))) \<and>
         fst (getTask r db i w) =
           Inr (case error (one_task db (getTask_query i)) of
                  Some e \<Rightarrow> None
                | None \<Rightarrow> data (one_task db (getTask_query i)))"
proof -
  obtain c w1 where g: "supabase_getter r w = (Some c, w1)" "supabase_getter r w1 = (Some c, w1)"
    using getter_configured [OF assms] by blast
  have "fst (getProject r db i w) =
           (case error (one_project db (getProject_query i)) of
              Some e \<Rightarrow> if code e = ''PGRST116'' then Inr None else Inl (StoreFault e)
            | None \<Rightarrow> Inr (data (one_project db (getProject_query i))))"
    by (simp add: getProject_def g deref_def Let_def split: option.splits)
  moreover have "fst (getTask r db i w) =
           Inr (case error (one_task db (getTask_query i)) of
                  Some e \<Rightarrow> None
                | None \<Rightarrow> data (one_task db (getTask_query i)))"
    by (simp add: getTask_def getTask_try_def g deref_def Let_def split: option.splits)
  ultimately show ?thesis by simp
qed

theorem single_row_reads_witness:
  "fst (getProject Flagged db1 5 w_remote) = Inr None \<and>
   fst (getProject Flagged (db1\<lparr>one_project := (\<lambda>q. \<lparr>data = None, error = Some fault_500\<rparr>)\<rparr>) 5 w_remote)
     = Inl (StoreFault fault_500) \<and>
   fst (getTask Flagged db1 5 w_remote) = Inr None"
  using single_row_reads [OF w_remote_configured, of Flagged db1 5]
        single_row_reads [OF w_remote_configured, of Flagged
          "db1\<lparr>one_project := (\<lambda>q. \<lparr>data = None, error = Some fault_500\<rparr>)\<rparr>" 5]
  by (simp add: db1_def fault_500_def fault_not_found_def)

text \<open>
  Against C5 as stated: with the store configured and answering a single-row read of a
  task with a fault whose code is \<open>500\<close>, not \<open>PGRST116\<close>, \<open>getTask\<close> returns \<open>null\<close>
  and logs a warning; the fault does not reach the caller.
\<close>

theorem getTask_swallows_fault:
  "configured Flagged w_remote \<and>
   error (one_task db1 (getTask_query 5)) = Some fault_500 \<and>
   code fault_500 \<noteq> ''PGRST116'' \<and>
   fst (getTask Flagged db1 5 w_remote) = Inr None \<and>
   last (console (snd (getTask Flagged db1 5 w_remote))) =
     LogExn ''Error loading task:'' (StoreFault fault_500)"
  by (simp add: configured_def getTask_def getTask_try_def supabase_getter_def getSupabase_def
        deref_def w_remote_def fresh_def env_configured_def console_log_def db1_def fault_500_def
        Let_def)

section \<open>List reads with a store\<close>

text \<open>What \<open>addStats\<close> adds to a row, and what it keeps.\<close>

lemma addStats_counts:
  "task_count (addStats p) = length (case tasks p of None \<Rightarrow> [] | Some ts \<Rightarrow> ts) \<and>
   completed_tasks (addStats p) =
     length (filter (\<lambda>t. t_status t = ''completed'') (case tasks p of None \<Rightarrow> [] | Some ts \<Rightarrow> ts)) \<and>
   active_tasks (addStats p) =
     length (filter (\<lambda>t. t_status t = ''running'') (case tasks p of None \<Rightarrow> [] | Some ts \<Rightarrow> ts))"
  by (cases p)
     (simp add: addStats_def project_row.extend_def ProjectWithStats.fields_def
        split: option.splits)

lemma addStats_keeps: "project_row.truncate (addStats p) = p"
  by (cases p)
     (simp add: addStats_def project_row.extend_def project_row.truncate_def
        ProjectWithStats.fields_def)

lemma addStats_created_at: "p_created_at (addStats p) = p_created_at p"
  by (cases p) (simp add: addStats_def project_row.extend_def ProjectWithStats.fields_def)

lemma getProjects_configured:
  assumes "configured r w"
  shows "fst (getProjects r db w) =
     Inr (case error (projects_with_tasks db getProjects_query) of
            Some e \<Rightarrow> []
          | None \<Rightarrow> (case data (projects_with_tasks db getProjects_query) of
                       None \<Rightarrow> [] | Some rows \<Rightarrow> map addStats rows))"
proof -
  obtain c w1 where g: "supabase_getter r w = (Some c, w1)" "supabase_getter r w1 = (Some c, w1)"
    using getter_configured [OF assms] by blast
  show ?thesis
    by (simp add: getProjects_def getProjects_try_def g deref_def Let_def split: option.splits)
qed

lemma getTasks_configured:
  assumes "configured r w"
  shows "fst (getTasks r db projectId opts w) =
     Inr (case error (task_rows db (getTasks_query projectId opts)) of
            Some e \<Rightarrow> []
          | None \<Rightarrow> (case data (task_rows db (getTasks_query projectId opts)) of
                       None \<Rightarrow> [] | Some rows \<Rightarrow> rows))"
proof -
  obtain c w1 where g: "supabase_getter r w = (Some c, w1)" "supabase_getter r w1 = (Some c, w1)"
    using getter_configured [OF assms] by blast
  show ?thesis
    by (simp add: getTasks_def getTasks_try_def g deref_def Let_def split: option.splits)
qed

text \<open>
  C7. With the store configured and answering the projects query with rows and no fault,
  \<open>getProjects\<close> returns exactly those rows, in the store's order, each with three
  counters added: \<open>task_count\<close> is the number of its child tasks, \<open>completed_tasks\<close> the
  number of those whose status is \<open>completed\<close>, \<open>active_tasks\<close> the number whose status
  is \<open>running\<close>; the columns of the row are kept. The query it sends asks the store to
  order by \<open>created_at\<close>, descending, so when the store's answer is in that order the result
  is too. A row with three children, two completed and one running, gets the counters 3, 2
  and 1.
\<close>

theorem getProjects_annotates:
  assumes "configured r w"
      and "projects_with_tasks db getProjects_query = \<lparr>data = Some rows, error = None\<rparr>"
  shows "fst (getProjects r db w) = Inr (map addStats rows) \<and>
         q_order getProjects_query = Some (''created_at'', False) \<and>
         map project_row.truncate (map addStats rows) = rows \<and>
         (\<forall>p. task_count (addStats p) =
                 length (case tasks p of None \<Rightarrow> [] | Some ts \<Rightarrow> ts) \<and>
               completed_tasks (addStats p) =
                 length (filter (\<lambda>t. t_status t = ''completed'')
                           (case tasks p of None \<Rightarrow> [] | Some ts \<Rightarrow> ts)) \<and>
               active_tasks (addStats p) =
                 length (filter (\<lambda>t. t_status t = ''running'')
                           (case tasks p of None \<Rightarrow> [] | Some ts \<Rightarrow> ts))) \<and>
         (sorted_wrt (\<lambda>a b. p_created_at b \<le> p_created_at a) rows \<longrightarrow>
            sorted_wrt (\<lambda>a b. p_created_at b \<le> p_created_at a) (map addStats rows)) \<and>
         (\<forall>p ts. tasks p = Some ts \<and> length ts = 3 \<and>
                  length (filter (\<lambda>t. t_status t = ''completed'') ts) = 2 \<and>
                  length (filter (\<lambda>t. t_status t = ''running'') ts) = 1 \<longrightarrow>
                  task_count (addStats p) = 3 \<and> completed_tasks (addStats p) = 2 \<and>
                  active_tasks (addStats p) = 1)"
proof (intro conjI)
  show "fst (getProjects r db w) = Inr (map addStats rows)"
    using getProjects_configured [OF assms(1), of db] assms(2) by simp
  show "q_order getProjects_query = Some (''created_at'', False)"
    by (simp add: getProjects_query_def order_by_def)
  show "map project_row.truncate (map addStats rows) = rows"
    by (induction rows) (simp_all add: addStats_keeps)
  show "\<forall>p. task_count (addStats p) =
                 length (case tasks p of None \<Rightarrow> [] | Some ts \<Rightarrow> ts) \<and>
               completed_tasks (addStats p) =
                 length (filter (\<lambda>t. t_status t = ''completed'')
                           (case tasks p of None \<Rightarrow> [] | Some ts \<Rightarrow> ts)) \<and>
               active_tasks (addStats p) =
                 length (filter (\<lambda>t. t_status t = ''running'')
                           (case tasks p of None \<Rightarrow> [] | Some ts \<Rightarrow> ts))"
    using addStats_counts by blast
  show "sorted_wrt (\<lambda>a b. p_created_at b \<le> p_created_at a) rows \<longrightarrow>
          sorted_wrt (\<lambda>a b. p_created_at b \<le> p_created_at a) (map addStats rows)"
    by (simp add: sorted_wrt_map addStats_created_at)
  show "\<forall>p ts. tasks p = Some ts \<and> length ts = 3 \<and>
                  length (filter (\<lambda>t. t_status t = ''completed'') ts) = 2 \<and>
                  length (filter (\<lambda>t. t_status t = ''running'') ts) = 1 \<longrightarrow>
                  task_count (addStats p) = 3 \<and> completed_tasks (addStats p) = 2 \<and>
                  active_tasks (addStats p) = 1"
    by (simp add: addStats_counts)
qed

theorem getProjects_annotates_witness:
  "tasks project1 = Some [\<lparr>t_id = 1, t_status = ''completed''\<rparr>,
                          \<lparr>t_id = 2, t_status = ''running''\<rparr>,
                          \<lparr>t_id = 3, t_status = ''completed''\<rparr>] \<and>
   fst (getProjects Lazy db1 w_remote) = Inr [addStats project1] \<and>
   task_count (addStats project1) = 3 \<and>
   completed_tasks (addStats project1) = 2 \<and>
   active_tasks (addStats project1) = 1 \<and>
   sorted_wrt (\<lambda>a b. p_created_at b \<le> p_created_at a) [addStats project1]"
proof -
  have a: "projects_with_tasks db1 getProjects_query = \<lparr>data = Some [project1], error = None\<rparr>"
    by (simp add: db1_def)
  have t: "tasks project1 = Some [\<lparr>t_id = 1, t_status = ''completed''\<rparr>,
                                  \<lparr>t_id = 2, t_status = ''running''\<rparr>,
                                  \<lparr>t_id = 3, t_status = ''completed''\<rparr>]"
    by (simp add: project1_def)
  show ?thesis
    using getProjects_annotates [OF w_remote_configured a, of Lazy] t by simp
qed

text \<open>
  C8. With the store configured, \<open>getTasks\<close> sends one query on the table \<open>tasks\<close>:
  filtered by \<open>project_id\<close> when a (non-zero) project id is given and unfiltered otherwise;
  restricted to the inclusive row range from \<open>offset\<close> (0 when absent) to
  \<open>offset + limit - 1\<close> when a (non-zero) limit is given and unrestricted otherwise; always
  ordered by \<open>created_at\<close>, descending. It returns the rows of the store's answer, and the
  empty list when the answer is a fault; it does not throw.
\<close>

theorem getTasks_query_and_degradation:
  assumes "configured r w"
  shows "fst (getTasks r db projectId opts w) =
           Inr (case error (task_rows db (getTasks_query projectId opts)) of
                  Some e \<Rightarrow> []
                | None \<Rightarrow> (case data (task_rows db (getTasks_query projectId opts)) of
                             None \<Rightarrow> [] | Some rows \<Rightarrow> rows)) \<and>
         q_table (getTasks_query projectId opts) = ''tasks'' \<and>
         q_filters (getTasks_query projectId opts) =
           (case projectId of
              None \<Rightarrow> []
            | Some pid \<Rightarrow> if pid = 0 then [] else [(''project_id'', QNum pid)]) \<and>
         q_range (getTasks_query projectId opts) =
           (case opts of
              None \<Rightarrow> None
            | Some os \<Rightarrow>
                (case limit os of
                   None \<Rightarrow> None
                 | Some l \<Rightarrow>
                     if l = 0 then None
                     else Some ((case offset os of None \<Rightarrow> 0 | Some k \<Rightarrow> k),
                                (case offset os of None \<Rightarrow> 0 | Some k \<Rightarrow> k) + l - 1))) \<and>
         q_order (getTasks_query projectId opts) = Some (''created_at'', False)"
proof (intro conjI)
  show "fst (getTasks r db projectId opts w) =
           Inr (case error (task_rows db (getTasks_query projectId opts)) of
                  Some e \<Rightarrow> []
                | None \<Rightarrow> (case data (task_rows db (getTasks_query projectId opts)) of
                             None \<Rightarrow> [] | Some rows \<Rightarrow> rows))"
    by (rule getTasks_configured [OF assms])
  show "q_table (getTasks_query projectId opts) = ''tasks''"
    by (simp add: getTasks_query_def order_by_def range_rows_def eq_filter_def select_cols_def
          from_table_def Let_def)
  show "q_filters (getTasks_query projectId opts) =
           (case projectId of
              None \<Rightarrow> []
            | Some pid \<Rightarrow> if pid = 0 then [] else [(''project_id'', QNum pid)])"
    by (simp add: getTasks_query_def order_by_def range_rows_def eq_filter_def select_cols_def
          from_table_def Let_def split: option.splits)
  show "q_range (getTasks_query projectId opts) =
           (case opts of
              None \<Rightarrow> None
            | Some os \<Rightarrow>
                (case limit os of
                   None \<Rightarrow> None
                 | Some l \<Rightarrow>
                     if l = 0 then None
                     else Some ((case offset os of None \<Rightarrow> 0 | Some k \<Rightarrow> k),
                                (case offset os of None \<Rightarrow> 0 | Some k \<Rightarrow> k) + l - 1)))"
    by (auto simp: getTasks_query_def order_by_def range_rows_def eq_filter_def select_cols_def
          from_table_def Let_def split: option.splits)
  show "q_order (getTasks_query projectId opts) = Some (''created_at'', False)"
    by (simp add: getTasks_query_def order_by_def Let_def)
qed

theorem getTasks_query_and_degradation_witness:
  "fst (getTasks Flagged db1 (Some 7) (Some \<lparr>limit = Some 10, offset = Some 20\<rparr>) w_remote) =
     Inr [task1] \<and>
   fst (getTasks Flagged (db1\<lparr>task_rows := (\<lambda>q. \<lparr>data = None, error = Some fault_500\<rparr>)\<rparr>)
          (Some 7) (Some \<lparr>limit = Some 10, offset = Some 20\<rparr>) w_remote) = Inr [] \<and>
   q_filters (getTasks_query (Some 7) (Some \<lparr>limit = Some 10, offset = Some 20\<rparr>)) =
     [(''project_id'', QNum 7)] \<and>
   q_range (getTasks_query (Some 7) (Some \<lparr>limit = Some 10, offset = Some 20\<rparr>)) =
     Some (20, 29) \<and>
   q_order (getTasks_query (Some 7) (Some \<lparr>limit = Some 10, offset = Some 20\<rparr>)) =
     Some (''created_at'', False)"
  using getTasks_query_and_degradation [OF w_remote_configured, of Flagged db1 "Some 7"
          "Some \<lparr>limit = Some 10, offset = Some 20\<rparr>"]
        getTasks_query_and_degradation [OF w_remote_configured, of Flagged
          "db1\<lparr>task_rows := (\<lambda>q. \<lparr>data = None, error = Some fault_500\<rparr>)\<rparr>" "Some 7"
          "Some \<lparr>limit = Some 10, offset = Some 20\<rparr>"]
  by (simp add: db1_def)

text \<open>The query \<open>getTasks\<close> sends when no row range applies, written out.\<close>

lemma getTasks_query_no_limit:
  "(case opts of None \<Rightarrow> True | Some os \<Rightarrow> limit os = None \<or> limit os = Some 0) \<Longrightarrow>
     getTasks_query projectId opts =
       \<lparr>q_table = ''tasks'', q_op = Select tasks_select,
        q_filters = (case projectId of
                       None \<Rightarrow> []
                     | Some pid \<Rightarrow> if pid = 0 then [] else [(''project_id'', QNum pid)]),
        q_range = None, q_order = Some (''created_at'', False), q_single = False\<rparr>"
  by (auto simp: getTasks_query_def order_by_def eq_filter_def select_cols_def from_table_def
        Let_def split: option.splits)

text \<open>
  C10. The row range is applied only when a limit is given and is not zero. With the limit
  absent or zero, \<open>getTasks\<close> does exactly what it does when called with no options at all,
  whatever the offset: the query has no row range and the result is the unpaginated one.
  With the store configured, and the options absent or their limit absent or zero, the
  query sent is the one on \<open>tasks\<close> with the project filter (when a non-zero project id is
  given), no row range and the order \<open>created_at\<close> descending, and the result is the rows
  the store answers that query with (the empty list when it answers with a fault).
\<close>

theorem getTasks_range_needs_limit:
  "(limit os = None \<or> limit os = Some 0 \<longrightarrow>
      q_range (getTasks_query projectId (Some os)) = None \<and>
      getTasks_query projectId (Some os) = getTasks_query projectId None \<and>
      getTasks r db projectId (Some os) w = getTasks r db projectId None w) \<and>
   (q_range (getTasks_query projectId opts) \<noteq> None \<longrightarrow>
      (\<exists>os l. opts = Some os \<and> limit os = Some l \<and> l \<noteq> 0)) \<and>
   ((case opts of None \<Rightarrow> True | Some os \<Rightarrow> limit os = None \<or> limit os = Some 0) \<longrightarrow>
      getTasks_query projectId opts =
        \<lparr>q_table = ''tasks'', q_op = Select tasks_select,
         q_filters = (case projectId of
                        None \<Rightarrow> []
                      | Some pid \<Rightarrow> if pid = 0 then [] else [(''project_id'', QNum pid)]),
         q_range = None, q_order = Some (''created_at'', False), q_single = False\<rparr>) \<and>
   ((case opts of None \<Rightarrow> True | Some os \<Rightarrow> limit os = None \<or> limit os = Some 0) \<and>
    configured r w \<longrightarrow>
      fst (getTasks r db projectId opts w) =
        Inr (case error (task_rows db
                    \<lparr>q_table = ''tasks'', q_op = Select tasks_select,
                     q_filters = (case projectId of
                                    None \<Rightarrow> []
                                  | Some pid \<Rightarrow>
                                      if pid = 0 then [] else [(''project_id'', QNum pid)]),
                     q_range = None, q_order = Some (''created_at'', False),
                     q_single = False\<rparr>) of
               Some e \<Rightarrow> []
             | None \<Rightarrow>
                 (case data (task_rows db
                         \<lparr>q_table = ''tasks'', q_op = Select tasks_select,
                          q_filters = (case projectId of
                                         None \<Rightarrow> []
                                       | Some pid \<Rightarrow>
                                           if pid = 0 then []
                                           else [(''project_id'', QNum pid)]),
                          q_range = None, q_order = Some (''created_at'', False),
                          q_single = False\<rparr>) of
                    None \<Rightarrow> []
                  | Some rows \<Rightarrow> rows)))"
proof -
  have a: "limit os = None \<or> limit os = Some 0 \<longrightarrow>
      q_range (getTasks_query projectId (Some os)) = None \<and>
      getTasks_query projectId (Some os) = getTasks_query projectId None \<and>
      getTasks r db projectId (Some os) w = getTasks r db projectId None w"
  proof (intro conjI impI)
    assume h: "limit os = None \<or> limit os = Some 0"
    then have n: "\<not> truthy_num (limit os)" by auto
    show q: "getTasks_query projectId (Some os) = getTasks_query projectId None"
      using n by (simp add: getTasks_query_def Let_def)
    show "q_range (getTasks_query projectId (Some os)) = None"
      unfolding q
      by (simp add: getTasks_query_def order_by_def eq_filter_def select_cols_def from_table_def
            Let_def)
    show "getTasks r db projectId (Some os) w = getTasks r db projectId None w"
      unfolding getTasks_def getTasks_try_def q by (rule refl)
  qed
  have b: "q_range (getTasks_query projectId opts) \<noteq> None \<longrightarrow>
      (\<exists>os l. opts = Some os \<and> limit os = Some l \<and> l \<noteq> 0)"
  proof
    assume "q_range (getTasks_query projectId opts) \<noteq> None"
    then show "\<exists>os l. opts = Some os \<and> limit os = Some l \<and> l \<noteq> 0"
      by (cases opts; cases "limit (the opts)")
         (auto simp: getTasks_query_def order_by_def range_rows_def eq_filter_def select_cols_def
            from_table_def Let_def split: if_splits)
  qed
  have c: "(case opts of None \<Rightarrow> True | Some os \<Rightarrow> limit os = None \<or> limit os = Some 0) \<longrightarrow>
      getTasks_query projectId opts =
        \<lparr>q_table = ''tasks'', q_op = Select tasks_select,
         q_filters = (case projectId of
                        None \<Rightarrow> []
                      | Some pid \<Rightarrow> if pid = 0 then [] else [(''project_id'', QNum pid)]),
         q_range = None, q_order = Some (''created_at'', False), q_single = False\<rparr>"
    using getTasks_query_no_limit [of opts projectId] by blast
  have d: "(case opts of None \<Rightarrow> True | Some os \<Rightarrow> limit os = None \<or> limit os = Some 0) \<and>
    configured r w \<longrightarrow>
      fst (getTasks r db projectId opts w) =
        Inr (case error (task_rows db
                    \<lparr>q_table = ''tasks'', q_op = Select tasks_select,
                     q_filters = (case projectId of
                                    None \<Rightarrow> []
                                  | Some pid \<Rightarrow>
                                      if pid = 0 then [] else [(''project_id'', QNum pid)]),
                     q_range = None, q_order = Some (''created_at'', False),
                     q_single = False\<rparr>) of
               Some e \<Rightarrow> []
             | None \<Rightarrow>
                 (case data (task_rows db
                         \<lparr>q_table = ''tasks'', q_op = Select tasks_select,
                          q_filters = (case projectId of
                                         None \<Rightarrow> []
                                       | Some pid \<Rightarrow>
                                           if pid = 0 then []
                                           else [(''project_id'', QNum pid)]),
                          q_range = None, q_order = Some (''created_at'', False),
                          q_single = False\<rparr>) of
                    None \<Rightarrow> []
                  | Some rows \<Rightarrow> rows))"
  proof
    assume h: "(case opts of None \<Rightarrow> True | Some os \<Rightarrow> limit os = None \<or> limit os = Some 0) \<and>
      configured r w"
    have q: "getTasks_query projectId opts =
        \<lparr>q_table = ''tasks'', q_op = Select tasks_select,
         q_filters = (case projectId of
                        None \<Rightarrow> []
                      | Some pid \<Rightarrow> if pid = 0 then [] else [(''project_id'', QNum pid)]),
         q_range = None, q_order = Some (''created_at'', False), q_single = False\<rparr>"
      using h getTasks_query_no_limit [of opts projectId] by blast
    show "fst (getTasks r db projectId opts w) =
        Inr (case error (task_rows db
                    \<lparr>q_table = ''tasks'', q_op = Select tasks_select,
                     q_filters = (case projectId of
                                    None \<Rightarrow> []
                                  | Some pid \<Rightarrow>
                                      if pid = 0 then [] else [(''project_id'', QNum pid)]),
                     q_range = None, q_order = Some (''created_at'', False),
                     q_single = False\<rparr>) of
               Some e \<Rightarrow> []
             | None \<Rightarrow>
                 (case data (task_rows db
                         \<lparr>q_table = ''tasks'', q_op = Select tasks_select,
                          q_filters = (case projectId of
                                         None \<Rightarrow> []
                                       | Some pid \<Rightarrow>
                                           if pid = 0 then []
                                           else [(''project_id'', QNum pid)]),
                          q_range = None, q_order = Some (''created_at'', False),
                          q_single = False\<rparr>) of
                    None \<Rightarrow> []
                  | Some rows \<Rightarrow> rows))"
      using getTasks_configured [of r w db projectId opts] h unfolding q by blast
  qed
  from a b c d show ?thesis by blast
qed

text \<open>
  The witness runs \<open>getTasks\<close> against a store that answers a query without a row range
  with one task and any query with a row range with none.
\<close>

theorem getTasks_range_needs_limit_witness:
  "configured Flagged w_remote \<and>
   fst (getTasks Flagged
          (db1\<lparr>task_rows := (\<lambda>q. if q_range q = None then \<lparr>data = Some [task1], error = None\<rparr>
                                 else \<lparr>data = Some [], error = None\<rparr>)\<rparr>)
          None (Some \<lparr>limit = Some 0, offset = Some 40\<rparr>) w_remote) = Inr [task1] \<and>
   fst (getTasks Flagged
          (db1\<lparr>task_rows := (\<lambda>q. if q_range q = None then \<lparr>data = Some [task1], error = None\<rparr>
                                 else \<lparr>data = Some [], error = None\<rparr>)\<rparr>)
          (Some 7) (Some \<lparr>limit = None, offset = Some 40\<rparr>) w_remote) = Inr [task1] \<and>
   getTasks Flagged db1 None (Some \<lparr>limit = Some 0, offset = Some 40\<rparr>) w_remote =
     getTasks Flagged db1 None None w_remote \<and>
   getTasks Flagged db1 (Some 7) (Some \<lparr>limit = None, offset = Some 40\<rparr>) w_remote =
     getTasks Flagged db1 (Some 7) None w_remote \<and>
   q_range (getTasks_query None (Some \<lparr>limit = Some 0, offset = Some 40\<rparr>)) = None \<and>
   q_range (getTasks_query None (Some \<lparr>limit = Some 5, offset = Some 40\<rparr>)) = Some (40, 44)"
proof -
  have e: "q_range (getTasks_query None (Some \<lparr>limit = Some 5, offset = Some 40\<rparr>)) = Some (40, 44)"
    by (simp add: getTasks_query_def order_by_def range_rows_def Let_def)
  have c: "configured Flagged w_remote"
    by (rule w_remote_configured)
  show ?thesis
    using getTasks_range_needs_limit [of "\<lparr>limit = Some 0, offset = Some 40\<rparr>" None Flagged db1
            w_remote "Some \<lparr>limit = Some 5, offset = Some 40\<rparr>"]
          getTasks_range_needs_limit [of "\<lparr>limit = None, offset = Some 40\<rparr>" "Some 7" Flagged db1
            w_remote None]
          getTasks_range_needs_limit [of "\<lparr>limit = None, offset = None\<rparr>" None Flagged
            "db1\<lparr>task_rows := (\<lambda>q. if q_range q = None then \<lparr>data = Some [task1], error = None\<rparr>
                                   else \<lparr>data = Some [], error = None\<rparr>)\<rparr>"
            w_remote "Some \<lparr>limit = Some 0, offset = Some 40\<rparr>"]
          getTasks_range_needs_limit [of "\<lparr>limit = None, offset = None\<rparr>" "Some 7" Flagged
            "db1\<lparr>task_rows := (\<lambda>q. if q_range q = None then \<lparr>data = Some [task1], error = None\<rparr>
                                   else \<lparr>data = Some [], error = None\<rparr>)\<rparr>"
            w_remote "Some \<lparr>limit = None, offset = Some 40\<rparr>"]
          e c
    by (simp add: getTasks_query_def order_by_def range_rows_def eq_filter_def select_cols_def
          from_table_def Let_def)
qed

section \<open>The forwarding endpoint\<close>

lemma BACKEND_URL_console_log: "BACKEND_URL (console_log entry w) = BACKEND_URL w"
  by (simp add: BACKEND_URL_def console_log_def)

lemma BACKEND_URL_network: "BACKEND_URL (w\<lparr>network := n\<rparr>) = BACKEND_URL w"
  by (simp add: BACKEND_URL_def)

lemma forward_request_console_log: "forward_request b (console_log entry w) = forward_request b w"
  by (simp add: forward_request_def BACKEND_URL_console_log)

text \<open>What \<open>POST\<close> answers when the backend's reply was read, and when anything was thrown.\<close>

lemma POST_forwarded:
  "net (forward_request b w) = Inr response \<Longrightarrow> json response = Inr d \<Longrightarrow>
     fst (POST net (Inr b) w) = \<lparr>resp_status = status response, resp_body = d\<rparr>"
  by (simp add: POST_def POST_try_def do_fetch_def forward_request_console_log Let_def
        NextResponse_json_def)

lemma POST_transport_fault:
  "net (forward_request b w) = Inl e \<Longrightarrow>
     fst (POST net (Inr b) w) =
       \<lparr>resp_status = 500,
        resp_body = JObj [(''error'', JStr (''Failed to connect to backend service at '' @
                             BACKEND_URL w @ '': '' @
                             (case e of Error m \<Rightarrow> m | _ \<Rightarrow> ''Unknown error''))),
                          (''status'', JStr ''error'')]\<rparr>"
  by (simp add: POST_def POST_try_def do_fetch_def forward_request_console_log Let_def
        NextResponse_json_def BACKEND_URL_console_log BACKEND_URL_network)

lemma POST_bad_request:
  "fst (POST net (Inl e) w) =
       \<lparr>resp_status = 500,
        resp_body = JObj [(''error'', JStr (''Failed to connect to backend service at '' @
                             BACKEND_URL w @ '': '' @
                             (case e of Error m \<Rightarrow> m | _ \<Rightarrow> ''Unknown error''))),
                          (''status'', JStr ''error'')]\<rparr>"
  by (simp add: POST_def POST_try_def NextResponse_json_def BACKEND_URL_console_log Let_def)

lemma POST_bad_reply:
  "net (forward_request b w) = Inr response \<Longrightarrow> json response = Inl e \<Longrightarrow>
     fst (POST net (Inr b) w) =
       \<lparr>resp_status = 500,
        resp_body = JObj [(''error'', JStr (''Failed to connect to backend service at '' @
                             BACKEND_URL w @ '': '' @
                             (case e of Error m \<Rightarrow> m | _ \<Rightarrow> ''Unknown error''))),
                          (''status'', JStr ''error'')]\<rparr>"
  by (simp add: POST_def POST_try_def do_fetch_def forward_request_console_log Let_def
        NextResponse_json_def BACKEND_URL_console_log BACKEND_URL_network)

text \<open>
  C9. For every request, \<open>POST\<close> answers in one of two ways: with the JSON body and the
  status of the backend's reply, unchanged; or with status 500 and the payload whose
  \<open>error\<close> field is "Failed to connect to backend service at ", the configured backend
  address, ": " and a detail, and whose \<open>status\<close> field is "error". When the request's
  body was read and the \<open>fetch\<close> to the backend rejects (a transport-level fault), the
  answer is the second, the detail being the fault's message; when the backend's reply was
  read as JSON, the answer is the first.
\<close>

theorem POST_forwards_or_reports:
  "((\<exists>b response d. request_json = Inr b \<and> net (forward_request b w) = Inr response \<and>
        json response = Inr d \<and>
        fst (POST net request_json w) = \<lparr>resp_status = status response, resp_body = d\<rparr>) \<or>
    (\<exists>detail. fst (POST net request_json w) =
        \<lparr>resp_status = 500,
         resp_body = JObj [(''error'', JStr (''Failed to connect to backend service at '' @
                              BACKEND_URL w @ '': '' @ detail)),
                           (''status'', JStr ''error'')]\<rparr>)) \<and>
   (\<forall>b e. request_json = Inr b \<and> net (forward_request b w) = Inl e \<longrightarrow>
      fst (POST net request_json w) =
        \<lparr>resp_status = 500,
         resp_body = JObj [(''error'', JStr (''Failed to connect to backend service at '' @
                              BACKEND_URL w @ '': '' @
                              (case e of Error m \<Rightarrow> m | _ \<Rightarrow> ''Unknown error''))),
                           (''status'', JStr ''error'')]\<rparr>) \<and>
   (\<forall>b response d. request_json = Inr b \<and> net (forward_request b w) = Inr response \<and>
        json response = Inr d \<longrightarrow>
      fst (POST net request_json w) = \<lparr>resp_status = status response, resp_body = d\<rparr>)"
proof (intro conjI allI impI)
  show "(\<exists>b response d. request_json = Inr b \<and> net (forward_request b w) = Inr response \<and>
        json response = Inr d \<and>
        fst (POST net request_json w) = \<lparr>resp_status = status response, resp_body = d\<rparr>) \<or>
    (\<exists>detail. fst (POST net request_json w) =
        \<lparr>resp_status = 500,
         resp_body = JObj [(''error'', JStr (''Failed to connect to backend service at '' @
                              BACKEND_URL w @ '': '' @ detail)),
                           (''status'', JStr ''error'')]\<rparr>)"
  proof (cases request_json)
    case (Inl e)
    then show ?thesis using POST_bad_request [of net e w] by blast
  next
    case b: (Inr b)
    show ?thesis
    proof (cases "net (forward_request b w)")
      case (Inl e)
      then show ?thesis using b POST_transport_fault [of net b w e] by blast
    next
      case r: (Inr response)
      show ?thesis
      proof (cases "json response")
        case (Inl e)
        then show ?thesis using b r POST_bad_reply [of net b w response e] by blast
      next
        case (Inr d)
        then show ?thesis using b r POST_forwarded [of net b w response d] by blast
      qed
    qed
  qed
next
  fix b e
  assume "request_json = Inr b \<and> net (forward_request b w) = Inl e"
  then show "fst (POST net request_json w) =
        \<lparr>resp_status = 500,
         resp_body = JObj [(''error'', JStr (''Failed to connect to backend service at '' @
                              BACKEND_URL w @ '': '' @
                              (case e of Error m \<Rightarrow> m | _ \<Rightarrow> ''Unknown error''))),
                           (''status'', JStr ''error'')]\<rparr>"
    using POST_transport_fault [of net b w e] by simp
next
  fix b response d
  assume "request_json = Inr b \<and> net (forward_request b w) = Inr response \<and>
        json response = Inr d"
  then show "fst (POST net request_json w) = \<lparr>resp_status = status response, resp_body = d\<rparr>"
    using POST_forwarded [of net b w response d] by simp
qed

theorem POST_forwards_or_reports_witness:
  "BACKEND_URL w_remote = ''http://backend:5000'' \<and>
   net_down (forward_request (JObj [(''token'', JStr ''t'')]) w_remote) = Inl (Error ''fetch failed'') \<and>
   fst (POST net_down (Inr (JObj [(''token'', JStr ''t'')])) w_remote) =
     \<lparr>resp_status = 500,
      resp_body = JObj [(''error'',
                         JStr ''Failed to connect to backend service at http://backend:5000: fetch failed''),
                        (''status'', JStr ''error'')]\<rparr> \<and>
   fst (POST net_401 (Inr (JObj [(''token'', JStr ''t'')])) w_remote) =
     \<lparr>resp_status = 401, resp_body = JObj [(''error'', JStr ''Invalid token'')]\<rparr>"
proof -
  have u: "BACKEND_URL w_remote = ''http://backend:5000''"
    by (simp add: BACKEND_URL_def or_default_def w_remote_def fresh_def env_configured_def)
  have d: "net_down (forward_request (JObj [(''token'', JStr ''t'')]) w_remote) =
             Inl (Error ''fetch failed'')"
    by (simp add: net_down_def)
  have r: "net_401 (forward_request (JObj [(''token'', JStr ''t'')]) w_remote) =
             Inr \<lparr>status = 401, json = Inr (JObj [(''error'', JStr ''Invalid token'')])\<rparr>"
    by (simp add: net_401_def)
  show ?thesis
    using POST_forwards_or_reports [of "Inr (JObj [(''token'', JStr ''t'')])" net_down w_remote]
          POST_forwards_or_reports [of "Inr (JObj [(''token'', JStr ''t'')])" net_401 w_remote]
          u d r
    by simp
qed

end
